theory Spec2Isabelle
  imports Main "HOL-Library.Finite_Map" "HOL-Library.Multiset"
begin

section \<open>Values, errors and Python's operators\<close>

text \<open>
  The values that topics hold and that changes carry are Python objects. The model has
  \<open>None\<close>, booleans, unbounded integers, finite floats, strings, lists, dictionaries and
  \<open>uuid.UUID\<close> objects (which \<open>ChangeValueChange.apply\<close> stores as an id).

  Where HOL is not Python:
  \<^item> Python's \<open>==\<close> is not HOL equality: \<open>True == 1\<close> and \<open>1 == 1.0\<close> hold, inside
    lists and dictionaries too. It is the relation \<open>py_eq\<close> below, and \<open>!=\<close>, \<open>in\<close> and
    \<open>list.remove\<close> are modelled with it.
  \<^item> A float is the rational number it denotes. Addition rounds to the nearest binary64
    number, ties to even. Infinities and NaN are not values of the model, and the two
    zeros are one value (Python has \<open>-0.0 == 0.0\<close>).
  \<^item> Keys that are equal in Python are one key of a dictionary (\<open>True\<close>, \<open>1\<close> and
    \<open>1.0\<close> index the same entry), so the key type has them once; a list or a dictionary
    used as a key raises \<open>TypeError\<close>. Which of several equal key objects a dictionary
    keeps is not modelled.
  \<^item> \<open>copy.deepcopy\<close> is the identity on values; what it does to object identity is
    modelled in the store semantics further down.
\<close>

datatype key = KNone | KInt int | KFloat rat | KStr string | KUuid nat

datatype val =
    VNone
  | VBool bool
  | VInt int
  | VFloat rat
  | VStr string
  | VList "val list"
  | VDict "(key, val) fmap"
  | VUuid nat

text \<open>
  The exceptions. \<open>OutsideModel\<close> is not one of them: it marks the one place where the
  code produces a value that the model does not have, an infinity from a float addition
  that overflows.
\<close>

datatype error =
    InvalidChangeError
  | AssertionError
  | TypeError
  | KeyError
  | IndexError
  | AttributeError
  | OverflowError
  | NotImplementedError
  | Exception
  | OutsideModel

subsection \<open>Equality\<close>

text \<open>
  The representative of a value among the values that Python's \<open>==\<close> identifies: a
  boolean is the integer 0 or 1, a float with an integral value is that integer.
\<close>

primrec canon :: "val \<Rightarrow> val" where
  "canon VNone = VNone"
| "canon (VBool b) = VInt (if b then 1 else 0)"
| "canon (VInt i) = VInt i"
| "canon (VFloat r) = (if of_int \<lfloor>r\<rfloor> = r then VInt \<lfloor>r\<rfloor> else VFloat r)"
| "canon (VStr s) = VStr s"
| "canon (VList xs) = VList (map canon xs)"
| "canon (VDict d) = VDict (fmmap canon d)"
| "canon (VUuid u) = VUuid u"

definition py_eq :: "val \<Rightarrow> val \<Rightarrow> bool" where
  "py_eq a b = (canon a = canon b)"

text \<open>The key a value denotes when it indexes a dictionary; \<open>None\<close> when it is unhashable.\<close>

fun hashable :: "val \<Rightarrow> key option" where
  "hashable VNone = Some KNone"
| "hashable (VBool b) = Some (KInt (if b then 1 else 0))"
| "hashable (VInt i) = Some (KInt i)"
| "hashable (VFloat r) = Some (if of_int \<lfloor>r\<rfloor> = r then KInt \<lfloor>r\<rfloor> else KFloat r)"
| "hashable (VStr s) = Some (KStr s)"
| "hashable (VList xs) = None"
| "hashable (VDict d) = None"
| "hashable (VUuid u) = Some (KUuid u)"

subsection \<open>Float addition\<close>

text \<open>
  Rounding of a rational to binary64: 53 significant bits, the smallest exponent that of
  the subnormal numbers, the nearest number with ties to even; \<open>None\<close> when the rounded
  magnitude reaches \<open>2 ^ 1024\<close>.
\<close>

function bit_length :: "int \<Rightarrow> int" where
  "bit_length n = (if n \<le> 0 then 0 else 1 + bit_length (n div 2))"
  by pat_completeness auto
termination
  by (relation "measure nat") auto

declare bit_length.simps [simp del]

definition pow2 :: "int \<Rightarrow> rat" where
  "pow2 k = (if 0 \<le> k then 2 ^ nat k else 1 / 2 ^ nat (- k))"

definition floor_log2 :: "rat \<Rightarrow> int" where
  "floor_log2 x =
     (case quotient_of x of
        (p, d) \<Rightarrow>
          (let k = bit_length p - bit_length d
           in if pow2 k \<le> x then k else k - 1))"

definition round_half_even :: "rat \<Rightarrow> int" where
  "round_half_even x =
     (let f = \<lfloor>x\<rfloor>; r = x - of_int f
      in if r < 1 / 2 then f else if 1 / 2 < r then f + 1 else if even f then f else f + 1)"

definition round64 :: "rat \<Rightarrow> rat option" where
  "round64 x =
     (if x = 0 then Some 0
      else
        (let e = max (floor_log2 \<bar>x\<bar> - 52) (- 1074);
             y = sgn x * of_int (round_half_even (\<bar>x\<bar> / pow2 e)) * pow2 e
         in if pow2 1024 \<le> \<bar>y\<bar> then None else Some y))"

subsection \<open>Operators\<close>

text \<open>
  Binary \<open>+\<close> and unary \<open>-\<close>. A boolean counts as the integer 0 or 1. An integer
  added to a float is converted to a float first, which raises \<open>OverflowError\<close> when it
  is too large.
\<close>

fun as_number :: "val \<Rightarrow> (int + rat) option" where
  "as_number (VBool b) = Some (Inl (if b then 1 else 0))"
| "as_number (VInt i) = Some (Inl i)"
| "as_number (VFloat r) = Some (Inr r)"
| "as_number _ = None"

definition float_add :: "rat \<Rightarrow> rat \<Rightarrow> error + val" where
  "float_add a b =
     (case round64 (a + b) of None \<Rightarrow> Inl OutsideModel | Some y \<Rightarrow> Inr (VFloat y))"

definition int_to_float :: "int \<Rightarrow> error + rat" where
  "int_to_float i =
     (case round64 (of_int i) of None \<Rightarrow> Inl OverflowError | Some y \<Rightarrow> Inr y)"

fun py_add :: "val \<Rightarrow> val \<Rightarrow> error + val" where
  "py_add (VStr a) (VStr b) = Inr (VStr (a @ b))"
| "py_add (VList a) (VList b) = Inr (VList (a @ b))"
| "py_add x y =
     (case (as_number x, as_number y) of
        (Some (Inl i), Some (Inl j)) \<Rightarrow> Inr (VInt (i + j))
      | (Some (Inr a), Some (Inr b)) \<Rightarrow> float_add a b
      | (Some (Inl i), Some (Inr b)) \<Rightarrow>
          (case int_to_float i of Inl e \<Rightarrow> Inl e | Inr a \<Rightarrow> float_add a b)
      | (Some (Inr a), Some (Inl j)) \<Rightarrow>
          (case int_to_float j of Inl e \<Rightarrow> Inl e | Inr b \<Rightarrow> float_add a b)
      | _ \<Rightarrow> Inl TypeError)"

definition py_neg :: "val \<Rightarrow> error + val" where
  "py_neg x =
     (case as_number x of
        Some (Inl i) \<Rightarrow> Inr (VInt (- i))
      | Some (Inr a) \<Rightarrow> Inr (VFloat (- a))
      | None \<Rightarrow> Inl TypeError)"

text \<open>
  \<open>item in container\<close>: membership up to \<open>==\<close> in a list, a key of a dictionary, a
  substring of a string (the item must be a string); any other container raises
  \<open>TypeError\<close>.
\<close>

fun substring :: "string \<Rightarrow> string \<Rightarrow> bool" where
  "substring t [] = (t = [])"
| "substring t (c # cs) = (take (length t) (c # cs) = t \<or> substring t cs)"

fun py_contains :: "val \<Rightarrow> val \<Rightarrow> error + bool" where
  "py_contains (VList xs) item = Inr (list_ex (\<lambda>y. py_eq y item) xs)"
| "py_contains (VDict d) item =
     (case hashable item of None \<Rightarrow> Inl TypeError | Some k \<Rightarrow> Inr (k |\<in>| fmdom d))"
| "py_contains (VStr s) item =
     (case item of VStr t \<Rightarrow> Inr (substring t s) | _ \<Rightarrow> Inl TypeError)"
| "py_contains _ item = Inl TypeError"

text \<open>\<open>list.remove(item)\<close> on a list that has the item: the first element equal to it goes.\<close>

fun py_remove1 :: "val \<Rightarrow> val list \<Rightarrow> val list" where
  "py_remove1 item [] = []"
| "py_remove1 item (y # ys) = (if py_eq y item then ys else y # py_remove1 item ys)"

text \<open>
  A value used as the index of a sequence of the given length: an integer or a boolean,
  counted from the end when negative; \<open>IndexError\<close> out of range, \<open>TypeError\<close> for any
  other value.
\<close>

definition py_index :: "val \<Rightarrow> nat \<Rightarrow> error + nat" where
  "py_index k len =
     (case as_number k of
        Some (Inl i) \<Rightarrow>
          (let j = (if i < 0 then i + int len else i)
           in if 0 \<le> j \<and> j < int len then Inr (nat j) else Inl IndexError)
      | _ \<Rightarrow> Inl TypeError)"

text \<open>\<open>container[k]\<close>, \<open>container[k] = v\<close> and \<open>container.pop(k)\<close>.\<close>

fun py_getitem :: "val \<Rightarrow> val \<Rightarrow> error + val" where
  "py_getitem (VDict d) k =
     (case hashable k of
        None \<Rightarrow> Inl TypeError
      | Some k' \<Rightarrow> (case fmlookup d k' of None \<Rightarrow> Inl KeyError | Some v \<Rightarrow> Inr v))"
| "py_getitem (VList xs) k =
     (case py_index k (length xs) of Inl e \<Rightarrow> Inl e | Inr j \<Rightarrow> Inr (xs ! j))"
| "py_getitem (VStr s) k =
     (case py_index k (length s) of Inl e \<Rightarrow> Inl e | Inr j \<Rightarrow> Inr (VStr [s ! j]))"
| "py_getitem _ k = Inl TypeError"

fun py_setitem :: "val \<Rightarrow> val \<Rightarrow> val \<Rightarrow> error + val" where
  "py_setitem (VDict d) k v =
     (case hashable k of None \<Rightarrow> Inl TypeError | Some k' \<Rightarrow> Inr (VDict (fmupd k' v d)))"
| "py_setitem (VList xs) k v =
     (case py_index k (length xs) of Inl e \<Rightarrow> Inl e | Inr j \<Rightarrow> Inr (VList (xs[j := v])))"
| "py_setitem _ k v = Inl TypeError"

fun py_pop :: "val \<Rightarrow> val \<Rightarrow> error + (val \<times> val)" where
  "py_pop (VDict d) k =
     (case hashable k of
        None \<Rightarrow> Inl TypeError
      | Some k' \<Rightarrow>
          (case fmlookup d k' of
             None \<Rightarrow> Inl KeyError
           | Some v \<Rightarrow> Inr (v, VDict (fmdrop k' d))))"
| "py_pop (VList xs) k =
     (case py_index k (length xs) of
        Inl e \<Rightarrow> Inl e
      | Inr j \<Rightarrow> Inr (xs ! j, VList (take j xs @ drop (Suc j) xs)))"
| "py_pop _ k = Inl AttributeError"

section \<open>The change catalog (\<open>change.py\<close>)\<close>

text \<open>
  The six subclasses of \<open>SetChange\<close> differ only in the \<open>topic_type\<close> that
  \<open>serialize\<close> writes; the constructor \<open>SetChange\<close> carries the class, \<open>TUnknown\<close>
  for the base class itself. \<open>AddChange\<close> likewise carries \<open>AInt\<close>
  (\<open>IntChangeTypes.AddChange\<close>) or \<open>AFloat\<close> (\<open>FloatChangeTypes.AddChange\<close>).
  Fields are in the order of the Python constructors, the id last.
\<close>

datatype set_class = TUnknown | TGeneric | TString | TInt | TFloat | TSet | TDict

datatype add_class = AInt | AFloat

datatype change =
    BaseChange val val
  | NullChange val val
  | SetChange set_class val val val val
  | AddChange add_class val val val
  | AppendChange val val val
  | RemoveChange val val val
  | DictAddChange val val val val
  | DictRemoveChange val val val val
  | ChangeValueChange val val val val val
  | EmitChange val val val val
  | ReversedEmitChange val val val val

text \<open>
  \<open>BaseChange topic_name id\<close>, \<open>NullChange topic_name id\<close>,
  \<open>SetChange class topic_name value old_value id\<close>,
  \<open>AddChange class topic_name value id\<close>,
  \<open>AppendChange topic_name item id\<close>, \<open>RemoveChange topic_name item id\<close>,
  \<open>DictAddChange topic_name key value id\<close>,
  \<open>DictRemoveChange topic_name key value id\<close> (\<open>value\<close> is \<open>None\<close> until \<open>apply\<close>
  captures the removed value),
  \<open>ChangeValueChange topic_name key value old_value id\<close>,
  \<open>EmitChange topic_name args forward_info id\<close>,
  \<open>ReversedEmitChange topic_name args forward_info id\<close>.
\<close>

fun change_id :: "change \<Rightarrow> val" where
  "change_id (BaseChange n i) = i"
| "change_id (NullChange n i) = i"
| "change_id (SetChange t n v ov i) = i"
| "change_id (AddChange t n v i) = i"
| "change_id (AppendChange n x i) = i"
| "change_id (RemoveChange n x i) = i"
| "change_id (DictAddChange n k v i) = i"
| "change_id (DictRemoveChange n k v i) = i"
| "change_id (ChangeValueChange n k v ov i) = i"
| "change_id (EmitChange n a f i) = i"
| "change_id (ReversedEmitChange n a f i) = i"

text \<open>
  \<open>Change.apply\<close> and its overrides. The method may update the change object
  itself (the captured old value, the id), so the model returns the updated change with
  the new value. The first argument is the UUID that \<open>uuid.uuid4()\<close> returns if the
  method calls it. An exception leaves the change as it was: every \<open>raise\<close> and the
  \<open>assert\<close> come before the first assignment to \<open>self\<close>.

  The methods do not check the kind of their argument, so each statement is the Python
  operator on whatever value it meets: a dictionary Add on a list that does not hold the
  key assigns at that index, a Remove on a string that holds the item fails for want of
  a \<open>remove\<close> method. In \<open>RemoveChange.apply\<close> on a dictionary that has the item as
  a key, \<open>old_value[:]\<close> raises \<open>TypeError\<close> (a slice is unhashable up to Python 3.11;
  from 3.12 on the same statement raises \<open>KeyError\<close>).
\<close>

fun change_apply :: "nat \<Rightarrow> change \<Rightarrow> val \<Rightarrow> error + (change \<times> val)" where
  "change_apply u (BaseChange n i) old_value = Inr (BaseChange n i, old_value)"
| "change_apply u (NullChange n i) old_value = Inr (NullChange n i, old_value)"
| "change_apply u (SetChange t n v ov i) old_value =
     (if ov \<noteq> VNone \<and> \<not> py_eq old_value ov then Inl AssertionError
      else Inr (SetChange t n v old_value i, v))"
| "change_apply u (AddChange t n v i) old_value =
     (case py_add old_value v of
        Inl e \<Rightarrow> Inl e
      | Inr r \<Rightarrow> Inr (AddChange t n v i, r))"
| "change_apply u (AppendChange n x i) old_value =
     (case py_contains old_value x of
        Inl e \<Rightarrow> Inl e
      | Inr True \<Rightarrow> Inl InvalidChangeError
      | Inr False \<Rightarrow>
          (case py_add old_value (VList [x]) of
             Inl e \<Rightarrow> Inl e
           | Inr r \<Rightarrow> Inr (AppendChange n x i, r)))"
| "change_apply u (RemoveChange n x i) old_value =
     (case py_contains old_value x of
        Inl e \<Rightarrow> Inl e
      | Inr False \<Rightarrow> Inl InvalidChangeError
      | Inr True \<Rightarrow>
          (case old_value of
             VList xs \<Rightarrow> Inr (RemoveChange n x i, VList (py_remove1 x xs))
           | VStr s \<Rightarrow> Inl AttributeError
           | _ \<Rightarrow> Inl TypeError))"
| "change_apply u (DictAddChange n k v i) old_dict =
     (case py_contains old_dict k of
        Inl e \<Rightarrow> Inl e
      | Inr True \<Rightarrow> Inl InvalidChangeError
      | Inr False \<Rightarrow>
          (case py_setitem old_dict k v of
             Inl e \<Rightarrow> Inl e
           | Inr d' \<Rightarrow> Inr (DictAddChange n k v i, d')))"
| "change_apply u (DictRemoveChange n k v i) old_dict =
     (case py_contains old_dict k of
        Inl e \<Rightarrow> Inl e
      | Inr False \<Rightarrow> Inl InvalidChangeError
      | Inr True \<Rightarrow>
          (case py_pop old_dict k of
             Inl e \<Rightarrow> Inl e
           | Inr (popped, d') \<Rightarrow> Inr (DictRemoveChange n k popped i, d')))"
| "change_apply u (ChangeValueChange n k v ov i) old_dict =
     (case py_contains old_dict k of
        Inl e \<Rightarrow> Inl e
      | Inr False \<Rightarrow> Inl InvalidChangeError
      | Inr True \<Rightarrow>
          (case py_getitem old_dict k of
             Inl e \<Rightarrow> Inl e
           | Inr cur \<Rightarrow>
               (case py_setitem old_dict k v of
                  Inl e \<Rightarrow> Inl e
                | Inr d' \<Rightarrow>
                    Inr (ChangeValueChange n k v cur (if \<not> py_eq ov cur then VUuid u else i),
                         d'))))"
| "change_apply u (EmitChange n a f i) old_value = Inr (EmitChange n a f i, VNone)"
| "change_apply u (ReversedEmitChange n a f i) old_value = Inr (ReversedEmitChange n a f i, VNone)"

text \<open>
  \<open>Change.inverse\<close> and its overrides. Every inverse is built without an id, so its constructor draws one: the
  first argument is that string, \<open>str(uuid.uuid4())\<close>. \<open>NullChange.inverse\<close> returns
  the change itself. \<open>FloatChangeTypes.AddChange.inverse\<close> returns an
  \<open>IntChangeTypes.AddChange\<close>, as the source has it.
\<close>

fun change_inverse :: "string \<Rightarrow> change \<Rightarrow> error + change" where
  "change_inverse s (BaseChange n i) = Inl NotImplementedError"
| "change_inverse s (NullChange n i) = Inr (NullChange n i)"
| "change_inverse s (SetChange t n v ov i) = Inr (SetChange t n ov v (VStr s))"
| "change_inverse s (AddChange t n v i) =
     (case py_neg v of
        Inl e \<Rightarrow> Inl e
      | Inr m \<Rightarrow> Inr (AddChange AInt n m (VStr s)))"
| "change_inverse s (AppendChange n x i) = Inr (RemoveChange n x (VStr s))"
| "change_inverse s (RemoveChange n x i) = Inr (AppendChange n x (VStr s))"
| "change_inverse s (DictAddChange n k v i) = Inr (DictRemoveChange n k VNone (VStr s))"
| "change_inverse s (DictRemoveChange n k v i) = Inr (DictAddChange n k v (VStr s))"
| "change_inverse s (ChangeValueChange n k v ov i) = Inr (ChangeValueChange n k ov v (VStr s))"
| "change_inverse s (EmitChange n a f i) = Inr (ReversedEmitChange n a f (VStr s))"
| "change_inverse s (ReversedEmitChange n a f i) = Inr (EmitChange n a (VDict fmempty) (VStr s))"

text \<open>
  \<open>serialize\<close>: the wire form, a dictionary from field names to values. The base class
  and \<open>NullChange\<close> raise \<open>NotImplementedError\<close>.
\<close>

fun topic_type_name :: "set_class \<Rightarrow> string" where
  "topic_type_name TUnknown = ''unknown''"
| "topic_type_name TGeneric = ''generic''"
| "topic_type_name TString = ''string''"
| "topic_type_name TInt = ''int''"
| "topic_type_name TFloat = ''float''"
| "topic_type_name TSet = ''set''"
| "topic_type_name TDict = ''dict''"

fun add_type_name :: "add_class \<Rightarrow> string" where
  "add_type_name AInt = ''int''"
| "add_type_name AFloat = ''float''"

fun serialize :: "change \<Rightarrow> error + (string, val) fmap" where
  "serialize (BaseChange n i) = Inl NotImplementedError"
| "serialize (NullChange n i) = Inl NotImplementedError"
| "serialize (SetChange t n v ov i) =
     Inr (fmap_of_list [(''topic_name'', n), (''topic_type'', VStr (topic_type_name t)),
        (''type'', VStr ''set''), (''value'', v), (''old_value'', ov), (''id'', i)])"
| "serialize (AddChange t n v i) =
     Inr (fmap_of_list [(''topic_name'', n), (''topic_type'', VStr (add_type_name t)),
        (''type'', VStr ''add''), (''value'', v), (''id'', i)])"
| "serialize (AppendChange n x i) =
     Inr (fmap_of_list [(''topic_name'', n), (''topic_type'', VStr ''set''),
        (''type'', VStr ''append''), (''item'', x), (''id'', i)])"
| "serialize (RemoveChange n x i) =
     Inr (fmap_of_list [(''topic_name'', n), (''topic_type'', VStr ''set''),
        (''type'', VStr ''remove''), (''item'', x), (''id'', i)])"
| "serialize (DictAddChange n k v i) =
     Inr (fmap_of_list [(''topic_name'', n), (''topic_type'', VStr ''dict''),
        (''type'', VStr ''add''), (''key'', k), (''value'', v), (''id'', i)])"
| "serialize (DictRemoveChange n k v i) =
     Inr (fmap_of_list [(''topic_name'', n), (''topic_type'', VStr ''dict''),
        (''type'', VStr ''remove''), (''key'', k), (''id'', i)])"
| "serialize (ChangeValueChange n k v ov i) =
     Inr (fmap_of_list [(''topic_name'', n), (''topic_type'', VStr ''dict''),
        (''type'', VStr ''change_value''), (''key'', k), (''value'', v),
        (''old_value'', ov), (''id'', i)])"
| "serialize (EmitChange n a f i) =
     Inr (fmap_of_list [(''topic_name'', n), (''topic_type'', VStr ''event''),
        (''type'', VStr ''emit''), (''args'', a), (''forward_info'', f), (''id'', i)])"
| "serialize (ReversedEmitChange n a f i) =
     Inr (fmap_of_list [(''topic_name'', n), (''topic_type'', VStr ''event''),
        (''type'', VStr ''reversed_emit''), (''args'', a), (''forward_info'', f),
        (''id'', i)])"

text \<open>
  \<open>Change.deserialize\<close>. The classes that the \<open>types\<close> tables register, the tables
  themselves (\<open>DictChangeTypes.types\<close> has the three entries of the source), and the
  keyword call \<open>cls(**change_dict)\<close>: a missing required parameter or a keyword that the
  constructor does not have raises \<open>TypeError\<close>; an id that is absent or \<open>None\<close> is
  drawn (the string argument, \<open>str(uuid.uuid4())\<close>).
\<close>

datatype change_class =
    CSet set_class
  | CAdd add_class
  | CAppend
  | CRemove
  | CDictAdd
  | CDictRemove
  | CChangeValue
  | CEmit
  | CReversedEmit

fun types :: "string \<Rightarrow> (string \<Rightarrow> change_class option) option" where
  "types tn =
     (if tn = ''generic'' then Some [''set'' \<mapsto> CSet TGeneric]
      else if tn = ''string'' then Some [''set'' \<mapsto> CSet TString]
      else if tn = ''int'' then Some [''set'' \<mapsto> CSet TInt, ''add'' \<mapsto> CAdd AInt]
      else if tn = ''float'' then Some [''set'' \<mapsto> CSet TFloat, ''add'' \<mapsto> CAdd AFloat]
      else if tn = ''set'' then
        Some [''set'' \<mapsto> CSet TSet, ''append'' \<mapsto> CAppend, ''remove'' \<mapsto> CRemove]
      else if tn = ''dict'' then
        Some [''set'' \<mapsto> CSet TDict, ''add'' \<mapsto> CDictAdd, ''remove'' \<mapsto> CDictRemove]
      else if tn = ''event'' then
        Some [''emit'' \<mapsto> CEmit, ''reversed_emit'' \<mapsto> CReversedEmit]
      else None)"

definition remove_entry :: "(string, val) fmap \<Rightarrow> string \<Rightarrow> (string, val) fmap" where
  "remove_entry dictionary k = fmdrop k dictionary"

definition kwargs_ok :: "(string, val) fmap \<Rightarrow> string list \<Rightarrow> string list \<Rightarrow> bool" where
  "kwargs_ok kw required optional =
     (fset_of_list required |\<subseteq>| fmdom kw \<and> fmdom kw |\<subseteq>| fset_of_list (required @ optional))"

definition kwarg :: "(string, val) fmap \<Rightarrow> string \<Rightarrow> val \<Rightarrow> val" where
  "kwarg kw k dflt = (case fmlookup kw k of None \<Rightarrow> dflt | Some v \<Rightarrow> v)"

definition init_id :: "string \<Rightarrow> val \<Rightarrow> val" where
  "init_id s i = (if i = VNone then VStr s else i)"

fun construct :: "string \<Rightarrow> change_class \<Rightarrow> (string, val) fmap \<Rightarrow> error + change" where
  "construct s (CSet t) kw =
     (if kwargs_ok kw [''topic_name'', ''value''] [''old_value'', ''id'']
      then Inr (SetChange t (kwarg kw ''topic_name'' VNone) (kwarg kw ''value'' VNone)
                  (kwarg kw ''old_value'' VNone) (init_id s (kwarg kw ''id'' VNone)))
      else Inl TypeError)"
| "construct s (CAdd t) kw =
     (if kwargs_ok kw [''topic_name'', ''value''] [''id'']
      then Inr (AddChange t (kwarg kw ''topic_name'' VNone) (kwarg kw ''value'' VNone)
                  (init_id s (kwarg kw ''id'' VNone)))
      else Inl TypeError)"
| "construct s CAppend kw =
     (if kwargs_ok kw [''topic_name'', ''item''] [''id'']
      then Inr (AppendChange (kwarg kw ''topic_name'' VNone) (kwarg kw ''item'' VNone)
                  (init_id s (kwarg kw ''id'' VNone)))
      else Inl TypeError)"
| "construct s CRemove kw =
     (if kwargs_ok kw [''topic_name'', ''item''] [''id'']
      then Inr (RemoveChange (kwarg kw ''topic_name'' VNone) (kwarg kw ''item'' VNone)
                  (init_id s (kwarg kw ''id'' VNone)))
      else Inl TypeError)"
| "construct s CDictAdd kw =
     (if kwargs_ok kw [''topic_name'', ''key'', ''value''] [''id'']
      then Inr (DictAddChange (kwarg kw ''topic_name'' VNone) (kwarg kw ''key'' VNone)
                  (kwarg kw ''value'' VNone) (init_id s (kwarg kw ''id'' VNone)))
      else Inl TypeError)"
| "construct s CDictRemove kw =
     (if kwargs_ok kw [''topic_name'', ''key''] [''id'']
      then Inr (DictRemoveChange (kwarg kw ''topic_name'' VNone) (kwarg kw ''key'' VNone)
                  VNone (init_id s (kwarg kw ''id'' VNone)))
      else Inl TypeError)"
| "construct s CChangeValue kw =
     (if kwargs_ok kw [''topic_name'', ''key'', ''value''] [''old_value'', ''id'']
      then Inr (ChangeValueChange (kwarg kw ''topic_name'' VNone) (kwarg kw ''key'' VNone)
                  (kwarg kw ''value'' VNone) (kwarg kw ''old_value'' VNone)
                  (init_id s (kwarg kw ''id'' VNone)))
      else Inl TypeError)"
| "construct s CEmit kw =
     (if kwargs_ok kw [''topic_name''] [''args'', ''id'']
      then Inr (EmitChange (kwarg kw ''topic_name'' VNone) (kwarg kw ''args'' (VDict fmempty))
                  (VDict fmempty) (init_id s (kwarg kw ''id'' VNone)))
      else Inl TypeError)"
| "construct s CReversedEmit kw =
     (if kwargs_ok kw [''topic_name''] [''args'', ''forward_info'', ''id'']
      then Inr (ReversedEmitChange (kwarg kw ''topic_name'' VNone)
                  (kwarg kw ''args'' (VDict fmempty))
                  (kwarg kw ''forward_info'' (VDict fmempty))
                  (init_id s (kwarg kw ''id'' VNone)))
      else Inl TypeError)"

text \<open>
  A dictionary lookup \<open>table[k]\<close> in a table whose keys are strings: an unhashable \<open>k\<close>
  raises \<open>TypeError\<close>, any other key that is not in the table raises \<open>KeyError\<close>.
\<close>

definition table_lookup :: "(string \<Rightarrow> 'a option) \<Rightarrow> val \<Rightarrow> error + 'a" where
  "table_lookup table k =
     (case hashable k of
        None \<Rightarrow> Inl TypeError
      | Some (KStr s) \<Rightarrow> (case table s of None \<Rightarrow> Inl KeyError | Some x \<Rightarrow> Inr x)
      | Some _ \<Rightarrow> Inl KeyError)"

definition deserialize :: "string \<Rightarrow> (string, val) fmap \<Rightarrow> error + change" where
  "deserialize s change_dict =
     (case fmlookup change_dict ''type'' of
        None \<Rightarrow> Inl KeyError
      | Some change_type \<Rightarrow>
     (case fmlookup change_dict ''topic_type'' of
        None \<Rightarrow> Inl KeyError
      | Some topic_type \<Rightarrow>
     (let kw = remove_entry (remove_entry change_dict ''type'') ''topic_type'' in
      case table_lookup types topic_type of
        Inl e \<Rightarrow> Inl e
      | Inr tys \<Rightarrow>
     (case table_lookup tys change_type of
        Inl e \<Rightarrow> Inl e
      | Inr cls \<Rightarrow> construct s cls kw))))"

section \<open>Topics (\<open>topic.py\<close>)\<close>

text \<open>
  \<open>InvalidChangeError.__init__(self, change, reason)\<close> takes two arguments. A call with
  another number of positional arguments raises \<open>TypeError\<close> instead of building the
  exception.
\<close>

definition InvalidChangeError_call :: "nat \<Rightarrow> error" where
  "InvalidChangeError_call nargs = (if nargs = 2 then InvalidChangeError else TypeError)"

text \<open>
  A topic: its name, its value and its validators, predicates over
  \<open>(old_value, new_value, change)\<close>. \<open>json.dumps\<close> is a library function and a
  parameter of the model (\<open>dumps\<close>); it raises \<open>TypeError\<close> on a value that is not
  JSON-serialisable.
\<close>

record topic =
  topic_name :: val
  topic_value :: val
  topic_validators :: "(val \<Rightarrow> val \<Rightarrow> change \<Rightarrow> bool) list"

fun type_validator :: "(val \<Rightarrow> bool) list \<Rightarrow> val \<Rightarrow> val \<Rightarrow> change \<Rightarrow> bool" where
  "type_validator [] old_value new_value c = False"
| "type_validator (t # ts) old_value new_value c =
     (if t new_value then True else type_validator ts old_value new_value c)"

fun isinstance_str :: "val \<Rightarrow> bool" where
  "isinstance_str (VStr s) = True"
| "isinstance_str _ = False"

fun isinstance_list :: "val \<Rightarrow> bool" where
  "isinstance_list (VList xs) = True"
| "isinstance_list _ = False"

text \<open>
  The statement that \<open>_validate_change_and_get_result\<close> runs when a validator fails:
  the f-string is evaluated first (\<open>change.serialize()\<close>, then the two \<open>json.dumps\<close>),
  then \<open>InvalidChangeError(self, change, message)\<close> is called with three arguments.
\<close>

definition raise_invalid ::
  "(val \<Rightarrow> error + string) \<Rightarrow> change \<Rightarrow> val \<Rightarrow> val \<Rightarrow> error" where
  "raise_invalid dumps c old_value new_value =
     (case serialize c of
        Inl e \<Rightarrow> e
      | Inr _ \<Rightarrow>
     (case dumps old_value of
        Inl e \<Rightarrow> e
      | Inr _ \<Rightarrow>
     (case dumps new_value of
        Inl e \<Rightarrow> e
      | Inr _ \<Rightarrow> InvalidChangeError_call 3)))"

fun run_validators ::
  "(val \<Rightarrow> error + string) \<Rightarrow> (val \<Rightarrow> val \<Rightarrow> change \<Rightarrow> bool) list \<Rightarrow> val \<Rightarrow> val \<Rightarrow> change
    \<Rightarrow> error option" where
  "run_validators dumps [] old_value new_value c = None"
| "run_validators dumps (validator # vs) old_value new_value c =
     (if \<not> validator old_value new_value c then Some (raise_invalid dumps c old_value new_value)
      else run_validators dumps vs old_value new_value c)"

text \<open>
  \<open>_validate_change_and_get_result\<close>: the change is applied to a deep copy of the value;
  an \<open>InvalidChangeError\<close> is re-raised, any other exception propagates. The validators
  see the change as \<open>apply\<close> left it.
\<close>

definition validate_change_and_get_result ::
  "(val \<Rightarrow> error + string) \<Rightarrow> nat \<Rightarrow> topic \<Rightarrow> change \<Rightarrow> (error + val) \<times> change" where
  "validate_change_and_get_result dumps u self c =
     (let old_value = topic_value self in
      case change_apply u c (topic_value self) of
        Inl e \<Rightarrow> (Inl e, c)
      | Inr (c', new_value) \<Rightarrow>
          (case run_validators dumps (topic_validators self) old_value new_value c' of
             Some e \<Rightarrow> (Inl e, c')
           | None \<Rightarrow> (Inr new_value, c')))"

text \<open>
  \<open>Topic.apply_change\<close>. \<open>notify\<close> stands for the abstract method
  \<open>notify_listeners(change, old_value, new_value)\<close>: \<open>None\<close> when it returns,
  \<open>Some e\<close> when it raises \<open>e\<close>. The result is the pair \<open>(old_value, new_value)\<close> or the
  exception, with the topic and the change as the call leaves them.
\<close>

definition apply_change ::
  "(val \<Rightarrow> error + string) \<Rightarrow> (change \<Rightarrow> val \<Rightarrow> val \<Rightarrow> error option) \<Rightarrow> nat \<Rightarrow> topic \<Rightarrow> change
    \<Rightarrow> bool \<Rightarrow> (error + (val \<times> val)) \<times> topic \<times> change" where
  "apply_change dumps notify u self c notify_listeners =
     (let old_value = topic_value self in
      case validate_change_and_get_result dumps u self c of
        (Inl e, c') \<Rightarrow> (Inl e, self, c')
      | (Inr new_value, c') \<Rightarrow>
          (let self1 = self\<lparr>topic_value := new_value\<rparr> in
           if notify_listeners then
             (case notify c' old_value (topic_value self1) of
                Some e \<Rightarrow> (Inl e, self1\<lparr>topic_value := old_value\<rparr>, c')
              | None \<Rightarrow> (Inr (old_value, new_value), self1, c'))
           else (Inr (old_value, new_value), self1, c')))"

subsection \<open>Listeners and notification\<close>

text \<open>
  Modelled from the spec: \<open>chatroom.utils.Action\<close>, the class of \<open>on_set\<close>,
  \<open>on_append\<close> and \<open>on_remove\<close>, is not under \<open>src/\<close>. The spec has registered
  listeners that run synchronously inside the apply call and may raise. An Action is the
  list of its callbacks; calling it calls each callback in turn with the argument, and a
  callback that raises ends the call with its exception. A callback is the function that
  tells, for an argument, whether the callback raises (\<open>Some e\<close>) or returns (\<open>None\<close>);
  callbacks do not touch the topic.
\<close>

type_synonym action = "(val \<Rightarrow> error option) list"

fun call_action :: "action \<Rightarrow> val \<Rightarrow> error option" where
  "call_action [] x = None"
| "call_action (f # fs) x = (case f x of Some e \<Rightarrow> Some e | None \<Rightarrow> call_action fs x)"

record listeners =
  on_set :: action
  on_append :: action
  on_remove :: action

text \<open>
  One call of an Action by \<open>notify_listeners\<close>, and the run of a sequence of such calls:
  the first exception ends it.
\<close>

datatype event = OnSet val | OnAppend val | OnRemove val

fun fire :: "listeners \<Rightarrow> event \<Rightarrow> error option" where
  "fire ls (OnSet x) = call_action (on_set ls) x"
| "fire ls (OnAppend x) = call_action (on_append ls) x"
| "fire ls (OnRemove x) = call_action (on_remove ls) x"

fun fire_all :: "listeners \<Rightarrow> event list \<Rightarrow> error option" where
  "fire_all ls [] = None"
| "fire_all ls (ev # evs) = (case fire ls ev of Some e \<Rightarrow> Some e | None \<Rightarrow> fire_all ls evs)"

text \<open>\<open>map(json.dumps, xs)\<close>, consumed by \<open>set\<close>: the first exception ends it.\<close>

fun map_dumps :: "(val \<Rightarrow> error + string) \<Rightarrow> val list \<Rightarrow> error + string list" where
  "map_dumps dumps [] = Inr []"
| "map_dumps dumps (x # xs) =
     (case dumps x of
        Inl e \<Rightarrow> Inl e
      | Inr s \<Rightarrow> (case map_dumps dumps xs of Inl e \<Rightarrow> Inl e | Inr ss \<Rightarrow> Inr (s # ss)))"

text \<open>
  \<open>SetTopic.notify_listeners\<close>, as the sequence of Action calls that the method makes
  when no listener raises, and the exception that the method itself ends with, if any.
  \<open>json.dumps\<close> and \<open>json.loads\<close> are parameters. A Python \<open>set\<close> of strings is the
  list of its elements without repetition; the order in which a \<open>for\<close> loop visits them is
  not fixed by the language, so it is the parameter \<open>order\<close>, which rearranges such a list.
  \<open>isinstance(change, SetChangeTypes.SetChange)\<close> holds for that subclass only. The
  old and the new value of a \<open>SetTopic\<close> are lists; on another value the model ends with
  \<open>TypeError\<close>.
\<close>

definition SetTopic_events ::
  "(val \<Rightarrow> error + string) \<Rightarrow> (string \<Rightarrow> val) \<Rightarrow> (string list \<Rightarrow> string list)
    \<Rightarrow> change \<Rightarrow> val \<Rightarrow> val \<Rightarrow> event list \<times> error option" where
  "SetTopic_events dumps loads order c old_value new_value =
     (case c of
        SetChange TSet n v ov i \<Rightarrow>
          (case (old_value, new_value) of
             (VList old, VList new) \<Rightarrow>
               (case map_dumps dumps old of
                  Inl e \<Rightarrow> ([OnSet new_value], Some e)
                | Inr old_strs \<Rightarrow>
               (case map_dumps dumps new of
                  Inl e \<Rightarrow> ([OnSet new_value], Some e)
                | Inr new_strs \<Rightarrow>
                    (let old_value_set = remdups old_strs;
                         new_value_set = remdups new_strs;
                         removed_items = filter (\<lambda>s. s \<notin> set new_value_set) old_value_set;
                         added_items = filter (\<lambda>s. s \<notin> set old_value_set) new_value_set
                     in ([OnSet new_value]
                           @ map (\<lambda>item. OnRemove (loads item)) (order removed_items)
                           @ map (\<lambda>item. OnAppend (loads item)) (order added_items),
                         None))))
           | _ \<Rightarrow> ([OnSet new_value], Some TypeError))
      | AppendChange n x i \<Rightarrow> ([OnSet new_value, OnAppend x], None)
      | RemoveChange n x i \<Rightarrow> ([OnSet new_value, OnRemove x], None)
      | _ \<Rightarrow> ([], Some Exception))"

definition SetTopic_notify_listeners ::
  "(val \<Rightarrow> error + string) \<Rightarrow> (string \<Rightarrow> val) \<Rightarrow> (string list \<Rightarrow> string list) \<Rightarrow> listeners
    \<Rightarrow> change \<Rightarrow> val \<Rightarrow> val \<Rightarrow> error option" where
  "SetTopic_notify_listeners dumps loads order ls c old_value new_value =
     (case SetTopic_events dumps loads order c old_value new_value of
        (evs, err) \<Rightarrow> (case fire_all ls evs of Some e \<Rightarrow> Some e | None \<Rightarrow> err))"

text \<open>\<open>StringTopic.notify_listeners\<close>: only \<open>StringChangeTypes.SetChange\<close> is supported.\<close>

definition StringTopic_events :: "change \<Rightarrow> val \<Rightarrow> val \<Rightarrow> event list \<times> error option" where
  "StringTopic_events c old_value new_value =
     (case c of
        SetChange TString n v ov i \<Rightarrow> ([OnSet new_value], None)
      | _ \<Rightarrow> ([], Some Exception))"

definition StringTopic_notify_listeners ::
  "listeners \<Rightarrow> change \<Rightarrow> val \<Rightarrow> val \<Rightarrow> error option" where
  "StringTopic_notify_listeners ls c old_value new_value =
     (case StringTopic_events c old_value new_value of
        (evs, err) \<Rightarrow> (case fire_all ls evs of Some e \<Rightarrow> Some e | None \<Rightarrow> err))"

text \<open>The two topic classes as their constructors leave them.\<close>

definition StringTopic :: "val \<Rightarrow> topic" where
  "StringTopic n =
     \<lparr>topic_name = n, topic_value = VStr [],
      topic_validators = [type_validator [isinstance_str]]\<rparr>"

definition SetTopic :: "val \<Rightarrow> topic" where
  "SetTopic n =
     \<lparr>topic_name = n, topic_value = VList [],
      topic_validators = [type_validator [isinstance_list]]\<rparr>"

text \<open>
  A codec for JSON integer literals, to instantiate \<open>json.dumps\<close> and \<open>json.loads\<close> at
  concrete inputs. Every other value is taken as not serialisable, every other text as
  \<open>null\<close>.
\<close>

fun digits :: "nat \<Rightarrow> string" where
  "digits n =
     (if n < 10 then [char_of (48 + n)]
      else digits (n div 10) @ [char_of (48 + n mod 10)])"

declare digits.simps [simp del]

fun undigits :: "nat \<Rightarrow> string \<Rightarrow> nat" where
  "undigits acc [] = acc"
| "undigits acc (c # cs) = undigits (10 * acc + (of_char c - 48)) cs"

fun int_dumps :: "val \<Rightarrow> error + string" where
  "int_dumps (VInt i) = Inr (if i < 0 then CHR ''-'' # digits (nat (- i)) else digits (nat i))"
| "int_dumps _ = Inl TypeError"

fun int_loads :: "string \<Rightarrow> val" where
  "int_loads [] = VNone"
| "int_loads (c # cs) =
     (if c = CHR ''-'' then VInt (- int (undigits 0 cs)) else VInt (int (undigits 0 (c # cs))))"

section \<open>Serialisation round trip\<close>

text \<open>\<open>Change.deserialize(c.serialize())\<close>; the string is the id drawn if none is given.\<close>

definition wire_round_trip :: "string \<Rightarrow> change \<Rightarrow> error + change" where
  "wire_round_trip s c = (case serialize c of Inl e \<Rightarrow> Inl e | Inr w \<Rightarrow> deserialize s w)"

section \<open>Objects: what \<open>apply\<close> does to its argument\<close>

text \<open>
  \<open>change_apply\<close> gives the value that \<open>apply\<close> returns. Whether the caller's object is
  changed is a matter of object identity, so here the argument is an address in a store of
  objects. Each \<open>apply\<close> method either returns its argument (the base class and
  \<open>NullChange\<close> return \<open>old_value\<close> untouched; the three dictionary operations assign
  into \<open>old_dict\<close>, or \<open>pop\<close> from it, and return it) or returns an object that it
  builds (\<open>copy.deepcopy(self.value)\<close>, \<open>old_value + ...\<close>, the copy \<open>old_value[:]\<close>,
  \<open>None\<close>). Every \<open>raise\<close> comes before the first assignment.
\<close>

type_synonym addr = nat

record store =
  heap :: "addr \<Rightarrow> val"
  next_addr :: addr

definition alloc :: "store \<Rightarrow> val \<Rightarrow> addr \<times> store" where
  "alloc st v =
     (next_addr st,
      st\<lparr>heap := (heap st)(next_addr st := v), next_addr := Suc (next_addr st)\<rparr>)"

datatype result_object = Argument | Fresh

fun returned_object :: "change \<Rightarrow> result_object" where
  "returned_object (BaseChange n i) = Argument"
| "returned_object (NullChange n i) = Argument"
| "returned_object (SetChange t n v ov i) = Fresh"
| "returned_object (AddChange t n v i) = Fresh"
| "returned_object (AppendChange n x i) = Fresh"
| "returned_object (RemoveChange n x i) = Fresh"
| "returned_object (DictAddChange n k v i) = Argument"
| "returned_object (DictRemoveChange n k v i) = Argument"
| "returned_object (ChangeValueChange n k v ov i) = Argument"
| "returned_object (EmitChange n a f i) = Fresh"
| "returned_object (ReversedEmitChange n a f i) = Fresh"

definition change_apply_ref ::
  "nat \<Rightarrow> change \<Rightarrow> store \<Rightarrow> addr \<Rightarrow> (error + (change \<times> addr)) \<times> store" where
  "change_apply_ref u c st a =
     (case change_apply u c (heap st a) of
        Inl e \<Rightarrow> (Inl e, st)
      | Inr (c', new_value) \<Rightarrow>
          (case returned_object c of
             Argument \<Rightarrow> (Inr (c', a), st\<lparr>heap := (heap st)(a := new_value)\<rparr>)
           | Fresh \<Rightarrow> (case alloc st new_value of (b, st') \<Rightarrow> (Inr (c', b), st'))))"

section \<open>String operations and the state machine\<close>

text \<open>
  Modelled from the spec: the string operations \<open>Insert\<close> and \<open>Delete\<close> and the
  \<open>StateMachine\<close> are not under \<open>src/\<close> (the \<open>StringTopic\<close> of \<open>topic.py\<close> has
  \<open>set\<close> only, and \<open>chatroom.state_machine\<close> is absent); the unit test calls them.
  From the operation table: \<open>Insert(pos, text)\<close> splices \<open>text\<close> into the string at
  \<open>pos\<close> and fails when \<open>pos\<close> is out of range, its inverse is \<open>Delete(pos, text)\<close>;
  \<open>Delete(pos, text)\<close> removes the substring \<open>text\<close> found at \<open>pos\<close> and fails when
  the substring at \<open>pos\<close> is not \<open>text\<close>, its inverse is \<open>Insert(pos, text)\<close>.
\<close>

datatype string_change = InsertChange int string | DeleteChange int string

fun string_apply :: "string_change \<Rightarrow> string \<Rightarrow> error + string" where
  "string_apply (InsertChange pos text) s =
     (if pos < 0 \<or> int (length s) < pos then Inl InvalidChangeError
      else Inr (take (nat pos) s @ text @ drop (nat pos) s))"
| "string_apply (DeleteChange pos text) s =
     (if pos < 0 \<or> take (length text) (drop (nat pos) s) \<noteq> text then Inl InvalidChangeError
      else Inr (take (nat pos) s @ drop (nat pos + length text) s))"

fun string_inverse :: "string_change \<Rightarrow> string_change" where
  "string_inverse (InsertChange pos text) = DeleteChange pos text"
| "string_inverse (DeleteChange pos text) = InsertChange pos text"

text \<open>
  Modelled from the spec: the \<open>StateMachine\<close> over string topics. It owns the topics by
  name. A recording scope applies the changes made inside it in order, each through the
  single-topic apply path; on normal exit the Transition, the changes with an identifier,
  is sealed and handed to the transition callback (the list \<open>transitions\<close> is what the
  callback has received); if a change is rejected, the changes already applied are rolled
  back in reverse order by their inverses and the error reaches the caller. \<open>undo\<close>
  applies the inverse of each change of a Transition in reverse order, \<open>redo\<close> reapplies
  the changes in their order; neither mints a Transition.
\<close>

record transition =
  changes :: "(string \<times> string_change) list"
  action_id :: nat

record state_machine =
  topics :: "(string, string) fmap"
  transitions :: "transition list"
  next_id :: nat

definition new_state_machine :: state_machine where
  "new_state_machine = \<lparr>topics = fmempty, transitions = [], next_id = 0\<rparr>"

definition add_topic :: "string \<Rightarrow> string \<Rightarrow> state_machine \<Rightarrow> state_machine" where
  "add_topic name init_value sm = sm\<lparr>topics := fmupd name init_value (topics sm)\<rparr>"

definition get :: "string \<Rightarrow> state_machine \<Rightarrow> string option" where
  "get name sm = fmlookup (topics sm) name"

definition apply_to_topic ::
  "string \<times> string_change \<Rightarrow> state_machine \<Rightarrow> error + state_machine" where
  "apply_to_topic nc sm =
     (case fmlookup (topics sm) (fst nc) of
        None \<Rightarrow> Inl KeyError
      | Some s \<Rightarrow>
          (case string_apply (snd nc) s of
             Inl e \<Rightarrow> Inl e
           | Inr s' \<Rightarrow> Inr (sm\<lparr>topics := fmupd (fst nc) s' (topics sm)\<rparr>)))"

fun apply_all :: "(string \<times> string_change) list \<Rightarrow> state_machine \<Rightarrow> error + state_machine" where
  "apply_all [] sm = Inr sm"
| "apply_all (nc # ncs) sm =
     (case apply_to_topic nc sm of Inl e \<Rightarrow> Inl e | Inr sm' \<Rightarrow> apply_all ncs sm')"

definition inverses :: "(string \<times> string_change) list \<Rightarrow> (string \<times> string_change) list" where
  "inverses ncs = map (\<lambda>nc. (fst nc, string_inverse (snd nc))) (rev ncs)"

text \<open>
  The recording scope: \<open>applied\<close> holds the changes applied so far. The result is the
  machine after the scope, with the error when the scope was aborted.
\<close>

fun record_scope ::
  "(string \<times> string_change) list \<Rightarrow> (string \<times> string_change) list \<Rightarrow> state_machine
    \<Rightarrow> error option \<times> state_machine" where
  "record_scope applied [] sm =
     (None, sm\<lparr>transitions := transitions sm @ [\<lparr>changes = applied, action_id = next_id sm\<rparr>],
               next_id := Suc (next_id sm)\<rparr>)"
| "record_scope applied (nc # ncs) sm =
     (case apply_to_topic nc sm of
        Inl e \<Rightarrow>
          (case apply_all (inverses applied) sm of
             Inl e' \<Rightarrow> (Some e', sm)
           | Inr sm' \<Rightarrow> (Some e, sm'))
      | Inr sm' \<Rightarrow> record_scope (applied @ [nc]) ncs sm')"

definition undo :: "transition \<Rightarrow> state_machine \<Rightarrow> error + state_machine" where
  "undo tr sm = apply_all (inverses (changes tr)) sm"

definition redo :: "transition \<Rightarrow> state_machine \<Rightarrow> error + state_machine" where
  "redo tr sm = apply_all (changes tr) sm"

section \<open>Apply, then apply the inverse\<close>


text \<open>The operations of \<open>DictChangeTypes\<close> on single keys.\<close>

fun dict_operation :: "change \<Rightarrow> bool" where
  "dict_operation (DictAddChange n k v i) = True"
| "dict_operation (DictRemoveChange n k v i) = True"
| "dict_operation (ChangeValueChange n k v ov i) = True"
| "dict_operation _ = False"

section \<open>Auxiliary facts\<close>







lemma order_single:
  assumes "\<forall>xs. mset (order xs) = mset xs"
  shows "order [x] = [x]"
proof -
  have "mset (order [x]) = {#x#}"
    using assms by simp
  then show ?thesis
    by (cases "order [x]") auto
qed

lemma apply_returns_argument_unchanged:
  assumes "change_apply u c v = Inr (c', v')"
      and "returned_object c = Argument"
      and "\<not> dict_operation c"
  shows "v' = v"
  using assms by (cases c) auto

lemma fresh_is_no_dict_operation: "returned_object c = Fresh \<Longrightarrow> \<not> dict_operation c"
  by (cases c) auto

text \<open>
  Whatever makes \<open>Topic.apply_change\<close> raise, a rejected change, a failed validator or a
  listener, the topic keeps the value it had.
\<close>

lemma apply_change_error_keeps_value:
  assumes "apply_change dumps notify u self c nl = (Inl e, self', c')"
      and "e \<noteq> OutsideModel"
  shows "self' = self"
  using assms
  by (auto simp: apply_change_def Let_def split: prod.splits sum.splits if_splits option.splits)

section \<open>The round-trip law\<close>




section \<open>String undo and redo\<close>

text \<open>
  C2. A string topic initialised to \<open>"a"\<close>; \<open>insert(1, "bcde")\<close> inside one recording
  scope makes the value \<open>"abcde"\<close> and hands exactly one Transition to the callback;
  undoing that Transition restores \<open>"a"\<close>, redoing it restores \<open>"abcde"\<close>, and neither
  adds a Transition. The scenario registers no listener and every result is a string, so
  the single-topic apply path is the operation on the value.
\<close>

theorem string_undo_redo:
  "(case record_scope [] [(''topic'', InsertChange 1 ''bcde'')]
           (add_topic ''topic'' ''a'' new_state_machine) of
      (err, sm1) \<Rightarrow>
        err = None \<and> get ''topic'' sm1 = Some ''abcde'' \<and> length (transitions sm1) = 1
        \<and> (case undo (transitions sm1 ! 0) sm1 of
              Inl e \<Rightarrow> False
            | Inr sm2 \<Rightarrow>
                get ''topic'' sm2 = Some ''a'' \<and> length (transitions sm2) = 1
                \<and> (case redo (transitions sm2 ! 0) sm2 of
                      Inl e \<Rightarrow> False
                    | Inr sm3 \<Rightarrow>
                        get ''topic'' sm3 = Some ''abcde''
                        \<and> length (transitions sm3) = 1)))"
  by (simp add: add_topic_def new_state_machine_def apply_to_topic_def get_def undo_def
      redo_def inverses_def)

section \<open>A Set change with a stale expectation\<close>

text \<open>
  C3, as the code has it. A Set change that carries an expected prior value other than
  \<open>None\<close>: when the topic's value is not equal (\<open>==\<close>) to it, \<open>apply\<close> fails on its
  \<open>assert\<close>, with \<open>AssertionError\<close>, and \<open>Topic.apply_change\<close> passes the exception on
  and leaves the topic as it was; when the value is equal to it, \<open>apply\<close> returns the new
  value.
\<close>

theorem set_change_expected_value:
  assumes "ov \<noteq> VNone"
  shows "(\<not> py_eq (topic_value self) ov \<longrightarrow>
            change_apply u (SetChange t n v ov i) (topic_value self) = Inl AssertionError
          \<and> apply_change dumps notify u self (SetChange t n v ov i) nl
              = (Inl AssertionError, self, SetChange t n v ov i))
       \<and> (py_eq (topic_value self) ov \<longrightarrow>
            change_apply u (SetChange t n v ov i) (topic_value self)
              = Inr (SetChange t n v (topic_value self) i, v))"
  using assms by (simp add: apply_change_def validate_change_and_get_result_def)

text \<open>A stale expectation, and the expectation \<open>True\<close> met by the value \<open>1\<close>.\<close>

theorem set_change_expected_value_witness:
  "change_apply 0 (SetChange TInt (VStr ''t'') (VInt 2) (VInt 1) (VStr ''id'')) (VInt 0)
     = Inl AssertionError
   \<and> apply_change (\<lambda>v. Inr ''x'') (\<lambda>c a b. None) 0
        \<lparr>topic_name = VStr ''t'', topic_value = VInt 0, topic_validators = []\<rparr>
        (SetChange TInt (VStr ''t'') (VInt 2) (VInt 1) (VStr ''id'')) True
     = (Inl AssertionError,
        \<lparr>topic_name = VStr ''t'', topic_value = VInt 0, topic_validators = []\<rparr>,
        SetChange TInt (VStr ''t'') (VInt 2) (VInt 1) (VStr ''id''))
   \<and> change_apply 0 (SetChange TInt (VStr ''t'') (VInt 2) (VBool True) (VStr ''id'')) (VInt 1)
     = Inr (SetChange TInt (VStr ''t'') (VInt 2) (VInt 1) (VStr ''id''), VInt 2)"
  using set_change_expected_value [of "VInt 1"
      "\<lparr>topic_name = VStr ''t'', topic_value = VInt 0, topic_validators = []\<rparr>"
      0 TInt "VStr ''t''" "VInt 2" "VStr ''id''" "\<lambda>v. Inr ''x''" "\<lambda>c a b. None" True]
    set_change_expected_value [of "VBool True"
      "\<lparr>topic_name = VStr ''t'', topic_value = VInt 1, topic_validators = []\<rparr>"
      0 TInt "VStr ''t''" "VInt 2" "VStr ''id''" "\<lambda>v. Inr ''x''" "\<lambda>c a b. None" True]
  by (simp add: py_eq_def)

text \<open>
  The claim C3 as stated fails in the kind of the failure: the exception is not an
  \<open>InvalidChangeError\<close>.
\<close>

theorem set_change_stale_expectation_counterexample:
  "change_apply 0 (SetChange TInt (VStr ''t'') (VInt 2) (VInt 1) (VStr ''id'')) (VInt 0)
     = Inl AssertionError
   \<and> change_apply 0 (SetChange TInt (VStr ''t'') (VInt 2) (VInt 1) (VStr ''id'')) (VInt 0)
     \<noteq> Inl InvalidChangeError"
  by (simp add: py_eq_def)

section \<open>A failing validator\<close>

text \<open>
  C4, at a concrete input. A \<open>StringTopic\<close> holding the empty string receives a Set
  change to the integer 5. The base-type validator fails; the \<open>raise\<close> statement then
  calls \<open>InvalidChangeError\<close> with three arguments, so what reaches the submitter is a
  \<open>TypeError\<close>. The stored value is untouched.
\<close>

theorem validator_failure_raises_type_error:
  "apply_change (\<lambda>v. Inr ''x'') (\<lambda>c a b. None) 0 (StringTopic (VStr ''t''))
     (SetChange TString (VStr ''t'') (VInt 5) VNone (VStr ''id'')) True
   = (Inl TypeError, StringTopic (VStr ''t''),
      SetChange TString (VStr ''t'') (VInt 5) (VStr []) (VStr ''id''))"
  by (simp add: apply_change_def validate_change_and_get_result_def raise_invalid_def
      InvalidChangeError_call_def StringTopic_def)

section \<open>Serialisation fidelity\<close>

text \<open>
  C5, at the dictionary ChangeValue operation. \<open>serialize\<close> writes the type
  \<open>change_value\<close>, which \<open>DictChangeTypes.types\<close> does not have: deserialising the
  wire form of any ChangeValue change raises \<open>KeyError\<close>.
\<close>

theorem change_value_not_deserializable:
  "wire_round_trip s (ChangeValueChange n k v ov i) = Inl KeyError"
  by (simp add: wire_round_trip_def deserialize_def table_lookup_def)

text \<open>
  The wire form of an Emit change has the field \<open>forward_info\<close>, which the constructor
  of \<open>EmitChange\<close> does not take.
\<close>

lemma emit_not_deserializable: "wire_round_trip s (EmitChange n a f i) = Inl TypeError"
  by (auto simp add: wire_round_trip_def deserialize_def table_lookup_def remove_entry_def
      kwargs_ok_def Let_def)

text \<open>
  The other registered operations come back as they were sent, when the change has an id;
  a dictionary Remove comes back without the value that \<open>apply\<close> had captured, which its
  wire form does not carry.
\<close>

lemmas wire_defs = wire_round_trip_def deserialize_def table_lookup_def remove_entry_def
  kwargs_ok_def Let_def kwarg_def init_id_def

lemma wire_round_trip_registered:
  assumes "i \<noteq> VNone"
  shows "t \<noteq> TUnknown \<Longrightarrow> wire_round_trip s (SetChange t n v ov i) = Inr (SetChange t n v ov i)"
    and "wire_round_trip s (AddChange ta n v i) = Inr (AddChange ta n v i)"
    and "wire_round_trip s (AppendChange n x i) = Inr (AppendChange n x i)"
    and "wire_round_trip s (RemoveChange n x i) = Inr (RemoveChange n x i)"
    and "wire_round_trip s (DictAddChange n k v i) = Inr (DictAddChange n k v i)"
    and "wire_round_trip s (DictRemoveChange n k v i) = Inr (DictRemoveChange n k VNone i)"
    and "wire_round_trip s (ReversedEmitChange n a f i) = Inr (ReversedEmitChange n a f i)"
proof -
  show "t \<noteq> TUnknown \<Longrightarrow> wire_round_trip s (SetChange t n v ov i) = Inr (SetChange t n v ov i)"
    using assms by (cases t) (auto simp: wire_defs)
  show "wire_round_trip s (AddChange ta n v i) = Inr (AddChange ta n v i)"
    using assms by (cases ta) (auto simp: wire_defs)
  show "wire_round_trip s (AppendChange n x i) = Inr (AppendChange n x i)"
    using assms by (auto simp: wire_defs)
  show "wire_round_trip s (RemoveChange n x i) = Inr (RemoveChange n x i)"
    using assms by (auto simp: wire_defs)
  show "wire_round_trip s (DictAddChange n k v i) = Inr (DictAddChange n k v i)"
    using assms by (auto simp: wire_defs)
  show "wire_round_trip s (DictRemoveChange n k v i) = Inr (DictRemoveChange n k VNone i)"
    using assms by (auto simp: wire_defs)
  show "wire_round_trip s (ReversedEmitChange n a f i) = Inr (ReversedEmitChange n a f i)"
    using assms by (auto simp: wire_defs)
qed

section \<open>The dictionary ChangeValue operation\<close>

text \<open>
  C6. A ChangeValue change applied to a dictionary: when the key is absent, \<open>apply\<close>
  fails with \<open>InvalidChangeError\<close>. When the key is present, \<open>apply\<close> succeeds whatever
  the expected old value was; the new value is stored at the key; the id is replaced by
  the UUID drawn exactly when the current value differs (\<open>!=\<close>) from the expected one;
  and the inverse is the ChangeValue that writes the captured prior value back and expects
  the new value.
\<close>

theorem change_value_apply:
  assumes "hashable k = Some k'"
  shows "(fmlookup d k' = None \<longrightarrow>
            change_apply u (ChangeValueChange n k v ov i) (VDict d) = Inl InvalidChangeError)
       \<and> (\<forall>cur. fmlookup d k' = Some cur \<longrightarrow>
            (\<exists>c'. change_apply u (ChangeValueChange n k v ov i) (VDict d)
                     = Inr (c', VDict (fmupd k' v d))
                 \<and> change_id c' = (if \<not> py_eq ov cur then VUuid u else i)
                 \<and> change_inverse s c' = Inr (ChangeValueChange n k cur v (VStr s))))"
  using assms by (auto simp: fmdom_notI fmdomI)

text \<open>
  An absent key; a stale expectation; and the expectation \<open>True\<close> met by the value
  \<open>1\<close>, under the key \<open>True\<close> of a dictionary that has the key \<open>1\<close>.
\<close>

theorem change_value_apply_witness:
  "change_apply 7 (ChangeValueChange (VStr ''t'') (VStr ''k'') (VInt 2) (VInt 9) (VStr ''i''))
       (VDict fmempty)
     = Inl InvalidChangeError
   \<and> (\<exists>c'. change_apply 7
              (ChangeValueChange (VStr ''t'') (VStr ''k'') (VInt 2) (VInt 9) (VStr ''i''))
              (VDict (fmupd (KStr ''k'') (VInt 1) fmempty))
            = Inr (c', VDict (fmupd (KStr ''k'') (VInt 2) (fmupd (KStr ''k'') (VInt 1) fmempty)))
          \<and> change_id c' = VUuid 7
          \<and> change_inverse ''f'' c'
            = Inr (ChangeValueChange (VStr ''t'') (VStr ''k'') (VInt 1) (VInt 2) (VStr ''f'')))
   \<and> (\<exists>c'. change_apply 7
              (ChangeValueChange (VStr ''t'') (VBool True) (VInt 2) (VBool True) (VStr ''i''))
              (VDict (fmupd (KInt 1) (VInt 1) fmempty))
            = Inr (c', VDict (fmupd (KInt 1) (VInt 2) (fmupd (KInt 1) (VInt 1) fmempty)))
          \<and> change_id c' = VStr ''i'')"
  using change_value_apply [of "VStr ''k''" "KStr ''k''" fmempty 7 "VStr ''t''" "VInt 2"
      "VInt 9" "VStr ''i''" "''f''"]
    change_value_apply [of "VStr ''k''" "KStr ''k''" "fmupd (KStr ''k'') (VInt 1) fmempty" 7
      "VStr ''t''" "VInt 2" "VInt 9" "VStr ''i''" "''f''"]
    change_value_apply [of "VBool True" "KInt 1" "fmupd (KInt 1) (VInt 1) fmempty" 7
      "VStr ''t''" "VInt 2" "VBool True" "VStr ''i''" "''f''"]
  by (simp add: py_eq_def)

section \<open>What \<open>apply\<close> does to the caller's object\<close>

text \<open>
  C7, as the code has it. The argument of \<open>apply\<close> is an allocated object. When
  \<open>apply\<close> raises, the store is as it was. A change that is not a dictionary operation
  on a key leaves the argument as it was. A dictionary Add, Remove or ChangeValue that
  succeeds returns the argument itself, which then holds the new value.
\<close>

theorem apply_frame:
  assumes "a < next_addr st"
      and "change_apply_ref u c st a = (r, st')"
  shows "(\<forall>e. r = Inl e \<longrightarrow> st' = st)
       \<and> (\<not> dict_operation c \<longrightarrow> heap st' a = heap st a)
       \<and> (dict_operation c \<longrightarrow>
            (\<forall>c' b. r = Inr (c', b) \<longrightarrow>
               b = a \<and> change_apply u c (heap st a) = Inr (c', heap st' a)))"
proof (cases "change_apply u c (heap st a)")
  case (Inl e)
  with assms show ?thesis
    by (auto simp: change_apply_ref_def)
next
  case (Inr p)
  obtain c' nv where p: "p = (c', nv)"
    by (cases p)
  show ?thesis
  proof (cases "returned_object c")
    case Argument
    show ?thesis
    proof (cases "dict_operation c")
      case True
      with assms Inr p Argument show ?thesis
        by (auto simp: change_apply_ref_def)
    next
      case False
      with Inr p Argument have "nv = heap st a"
        by (simp add: apply_returns_argument_unchanged)
      with assms Inr p Argument False show ?thesis
        by (auto simp: change_apply_ref_def)
    qed
  next
    case Fresh
    then have "\<not> dict_operation c"
      by (rule fresh_is_no_dict_operation)
    with assms Inr p Fresh show ?thesis
      by (auto simp: change_apply_ref_def alloc_def)
  qed
qed

theorem apply_frame_witness:
  "heap (snd (change_apply_ref 0 (AppendChange (VStr ''t'') (VInt 2) (VStr ''i''))
            \<lparr>heap = (\<lambda>a. VNone)(0 := VList [VInt 1]), next_addr = 1\<rparr> 0)) 0
     = VList [VInt 1]"
  using apply_frame [of 0 "\<lparr>heap = (\<lambda>a. VNone)(0 := VList [VInt 1]), next_addr = 1\<rparr>" 0
      "AppendChange (VStr ''t'') (VInt 2) (VStr ''i'')"
      "fst (change_apply_ref 0 (AppendChange (VStr ''t'') (VInt 2) (VStr ''i''))
            \<lparr>heap = (\<lambda>a. VNone)(0 := VList [VInt 1]), next_addr = 1\<rparr> 0)"
      "snd (change_apply_ref 0 (AppendChange (VStr ''t'') (VInt 2) (VStr ''i''))
            \<lparr>heap = (\<lambda>a. VNone)(0 := VList [VInt 1]), next_addr = 1\<rparr> 0)"]
  by simp

text \<open>
  The claim C7 as stated fails for the dictionary Add: after the call the caller's
  dictionary has the new key.
\<close>

theorem dict_add_mutates_argument_counterexample:
  "heap (snd (change_apply_ref 0
            (DictAddChange (VStr ''t'') (VStr ''k'') (VInt 1) (VStr ''i''))
            \<lparr>heap = (\<lambda>a. VNone)(0 := VDict fmempty), next_addr = 1\<rparr> 0)) 0
     = VDict (fmupd (KStr ''k'') (VInt 1) fmempty)
   \<and> heap (snd (change_apply_ref 0
            (DictAddChange (VStr ''t'') (VStr ''k'') (VInt 1) (VStr ''i''))
            \<lparr>heap = (\<lambda>a. VNone)(0 := VDict fmempty), next_addr = 1\<rparr> 0)) 0
     \<noteq> heap \<lparr>heap = (\<lambda>a. VNone)(0 := VDict fmempty), next_addr = 1\<rparr> 0"
  by (simp add: change_apply_ref_def)

section \<open>A listener that raises\<close>

text \<open>
  C8. When a change has passed validation and notification raises, \<open>Topic.apply_change\<close>
  ends with that exception and the topic is as it was before the call.
\<close>

theorem listener_failure_rolls_back:
  assumes "validate_change_and_get_result dumps u self c = (Inr new_value, c')"
      and "notify c' (topic_value self) new_value = Some e"
  shows "apply_change dumps notify u self c True = (Inl e, self, c')"
  using assms by (simp add: apply_change_def)

text \<open>A \<open>SetTopic\<close> whose \<open>on_append\<close> listener raises, and an Append of 1.\<close>

theorem listener_failure_rolls_back_witness:
  "apply_change int_dumps
     (SetTopic_notify_listeners int_dumps int_loads (\<lambda>xs. xs)
        \<lparr>on_set = [], on_append = [\<lambda>x. Some Exception], on_remove = []\<rparr>)
     0 (SetTopic (VStr ''t'')) (AppendChange (VStr ''t'') (VInt 1) (VStr ''i'')) True
   = (Inl Exception, SetTopic (VStr ''t''), AppendChange (VStr ''t'') (VInt 1) (VStr ''i''))"
proof -
  have v: "validate_change_and_get_result int_dumps 0 (SetTopic (VStr ''t''))
             (AppendChange (VStr ''t'') (VInt 1) (VStr ''i''))
           = (Inr (VList [VInt 1]), AppendChange (VStr ''t'') (VInt 1) (VStr ''i''))"
    by (simp add: validate_change_and_get_result_def SetTopic_def)
  have n: "SetTopic_notify_listeners int_dumps int_loads (\<lambda>xs. xs)
             \<lparr>on_set = [], on_append = [\<lambda>x. Some Exception], on_remove = []\<rparr>
             (AppendChange (VStr ''t'') (VInt 1) (VStr ''i''))
             (topic_value (SetTopic (VStr ''t''))) (VList [VInt 1]) = Some Exception"
    by (simp add: SetTopic_notify_listeners_def SetTopic_events_def)
  show ?thesis
    by (rule listener_failure_rolls_back
        [where notify = "SetTopic_notify_listeners int_dumps int_loads (\<lambda>xs. xs)
           \<lparr>on_set = [], on_append = [\<lambda>x. Some Exception], on_remove = []\<rparr>", OF v n])
qed

section \<open>Notification of a set-as-list topic\<close>

text \<open>
  C9. A whole-value Set that takes a \<open>SetTopic\<close> from \<open>[1, 2, 3]\<close> to \<open>[2, 3, 4]\<close>:
  \<open>notify_listeners\<close> calls the listeners of \<open>on_set\<close> with the new list, then those of
  \<open>on_remove\<close> once, with 1, then those of \<open>on_append\<close> once, with 4, and makes no other
  call; a listener that raises ends the notification. \<open>json.loads\<close> is assumed to invert
  \<open>json.dumps\<close> on the four integers, and a loop over a set to visit each element once.
\<close>

theorem diff_based_notification:
  assumes json: "\<forall>j \<in> {1, 2, 3, 4}. dumps (VInt j) = Inr (enc j) \<and> loads (enc j) = VInt j"
      and ord: "\<forall>xs. mset (order xs) = mset xs"
  shows "SetTopic_events dumps loads order
           (SetChange TSet n (VList [VInt 2, VInt 3, VInt 4]) ov i)
           (VList [VInt 1, VInt 2, VInt 3]) (VList [VInt 2, VInt 3, VInt 4])
         = ([OnSet (VList [VInt 2, VInt 3, VInt 4]), OnRemove (VInt 1), OnAppend (VInt 4)],
            None)
       \<and> SetTopic_notify_listeners dumps loads order ls
           (SetChange TSet n (VList [VInt 2, VInt 3, VInt 4]) ov i)
           (VList [VInt 1, VInt 2, VInt 3]) (VList [VInt 2, VInt 3, VInt 4])
         = (case call_action (on_set ls) (VList [VInt 2, VInt 3, VInt 4]) of
              Some e \<Rightarrow> Some e
            | None \<Rightarrow>
                (case call_action (on_remove ls) (VInt 1) of
                   Some e \<Rightarrow> Some e
                 | None \<Rightarrow> call_action (on_append ls) (VInt 4)))"
proof -
  have inj: "enc a \<noteq> enc b" if "a \<in> {1, 2, 3, 4}" "b \<in> {1, 2, 3, 4}" "a \<noteq> b" for a b
  proof
    assume "enc a = enc b"
    then have "loads (enc a) = loads (enc b)"
      by simp
    with json that show False
      by auto
  qed
  have d: "enc 1 \<noteq> enc 2" "enc 1 \<noteq> enc 3" "enc 1 \<noteq> enc 4" "enc 2 \<noteq> enc 3"
    "enc 2 \<noteq> enc 4" "enc 3 \<noteq> enc 4"
    by (rule inj; simp)+
  have e: "dumps (VInt 1) = Inr (enc 1)" "dumps (VInt 2) = Inr (enc 2)"
    "dumps (VInt 3) = Inr (enc 3)" "dumps (VInt 4) = Inr (enc 4)"
    "loads (enc 1) = VInt 1" "loads (enc 4) = VInt 4"
    using json by simp_all
  have events: "SetTopic_events dumps loads order
           (SetChange TSet n (VList [VInt 2, VInt 3, VInt 4]) ov i)
           (VList [VInt 1, VInt 2, VInt 3]) (VList [VInt 2, VInt 3, VInt 4])
         = ([OnSet (VList [VInt 2, VInt 3, VInt 4]), OnRemove (VInt 1), OnAppend (VInt 4)],
            None)"
    using d
    by (simp add: SetTopic_events_def e order_single [OF ord] Let_def
        eq_commute [of "enc 2" "enc 1"])
  show ?thesis
    by (simp add: SetTopic_notify_listeners_def events split: option.splits)
qed

text \<open>
  With the codec for integer literals, and listeners such that the one of \<open>on_remove\<close>
  raises \<open>KeyError\<close> at 1 and the one of \<open>on_append\<close> raises \<open>Exception\<close> at 4: the
  notification ends with the \<open>KeyError\<close>.
\<close>

theorem diff_based_notification_witness:
  "SetTopic_events int_dumps int_loads (\<lambda>xs. xs)
     (SetChange TSet (VStr ''t'') (VList [VInt 2, VInt 3, VInt 4]) VNone (VStr ''i''))
     (VList [VInt 1, VInt 2, VInt 3]) (VList [VInt 2, VInt 3, VInt 4])
   = ([OnSet (VList [VInt 2, VInt 3, VInt 4]), OnRemove (VInt 1), OnAppend (VInt 4)], None)
   \<and> SetTopic_notify_listeners int_dumps int_loads (\<lambda>xs. xs)
       \<lparr>on_set = [\<lambda>x. None],
        on_append = [\<lambda>x. if x = VInt 4 then Some Exception else None],
        on_remove = [\<lambda>x. if x = VInt 1 then Some KeyError else None]\<rparr>
       (SetChange TSet (VStr ''t'') (VList [VInt 2, VInt 3, VInt 4]) VNone (VStr ''i''))
       (VList [VInt 1, VInt 2, VInt 3]) (VList [VInt 2, VInt 3, VInt 4])
     = Some KeyError"
proof -
  have json: "\<forall>j \<in> {1, 2, 3, 4}.
      int_dumps (VInt j) = Inr (digits (nat j)) \<and> int_loads (digits (nat j)) = VInt j"
    by code_simp
  have ord: "\<forall>xs::string list. mset ((\<lambda>xs. xs) xs) = mset xs"
    by simp
  show ?thesis
    using diff_based_notification [OF json ord, where ls =
        "\<lparr>on_set = [\<lambda>x. None],
          on_append = [\<lambda>x. if x = VInt 4 then Some Exception else None],
          on_remove = [\<lambda>x. if x = VInt 1 then Some KeyError else None]\<rparr>"]
    by simp
qed



end